theory Spec2Isabelle
  imports Complex_Main "HOL-Library.Sublist" "HOL-Library.Multiset"
begin

section \<open>Numeric values of the dataframe columns\<close>

text \<open>
  The scripts compute on pandas float64 columns and Python floats. A value is modelled as
  a real number or one of the three special values that pandas and numpy produce instead
  of raising: plus infinity, minus infinity and NaN. Division by zero is written out
  (\<open>x / 0\<close> is an infinity of the sign of \<open>x\<close>, \<open>0 / 0\<close> is NaN), comparisons with
  NaN are false. Rounding, overflow and the sign of zero are not modelled.
\<close>

datatype fval = Fin real | PInf | NInf | NaN

fun fneg :: "fval \<Rightarrow> fval" where
  "fneg (Fin a) = Fin (- a)"
| "fneg PInf = NInf"
| "fneg NInf = PInf"
| "fneg NaN = NaN"

fun fabs :: "fval \<Rightarrow> fval" where
  "fabs (Fin a) = Fin \<bar>a\<bar>"
| "fabs PInf = PInf"
| "fabs NInf = PInf"
| "fabs NaN = NaN"

fun fadd :: "fval \<Rightarrow> fval \<Rightarrow> fval" where
  "fadd (Fin a) (Fin b) = Fin (a + b)"
| "fadd NaN _ = NaN"
| "fadd _ NaN = NaN"
| "fadd PInf NInf = NaN"
| "fadd NInf PInf = NaN"
| "fadd PInf _ = PInf"
| "fadd _ PInf = PInf"
| "fadd NInf _ = NInf"
| "fadd _ NInf = NInf"

definition fsub :: "fval \<Rightarrow> fval \<Rightarrow> fval" where
  "fsub a b = fadd a (fneg b)"

definition signed_inf :: "real \<Rightarrow> fval" where
  "signed_inf a = (if 0 < a then PInf else if a < 0 then NInf else NaN)"

fun fmul :: "fval \<Rightarrow> fval \<Rightarrow> fval" where
  "fmul (Fin a) (Fin b) = Fin (a * b)"
| "fmul NaN _ = NaN"
| "fmul _ NaN = NaN"
| "fmul (Fin a) PInf = signed_inf a"
| "fmul (Fin a) NInf = signed_inf (- a)"
| "fmul PInf (Fin b) = signed_inf b"
| "fmul NInf (Fin b) = signed_inf (- b)"
| "fmul PInf PInf = PInf"
| "fmul NInf NInf = PInf"
| "fmul PInf NInf = NInf"
| "fmul NInf PInf = NInf"

fun fdiv :: "fval \<Rightarrow> fval \<Rightarrow> fval" where
  "fdiv (Fin a) (Fin b) = (if b = 0 then signed_inf a else Fin (a / b))"
| "fdiv NaN _ = NaN"
| "fdiv _ NaN = NaN"
| "fdiv (Fin a) PInf = Fin 0"
| "fdiv (Fin a) NInf = Fin 0"
| "fdiv PInf (Fin b) = (if b < 0 then NInf else PInf)"
| "fdiv NInf (Fin b) = (if b < 0 then PInf else NInf)"
| "fdiv PInf PInf = NaN"
| "fdiv PInf NInf = NaN"
| "fdiv NInf PInf = NaN"
| "fdiv NInf NInf = NaN"

fun flt :: "fval \<Rightarrow> fval \<Rightarrow> bool" where
  "flt (Fin a) (Fin b) = (a < b)"
| "flt NaN _ = False"
| "flt _ NaN = False"
| "flt NInf NInf = False"
| "flt NInf _ = True"
| "flt _ NInf = False"
| "flt PInf _ = False"
| "flt _ PInf = True"

definition fgt :: "fval \<Rightarrow> fval \<Rightarrow> bool" where
  "fgt a b = flt b a"


section \<open>Dates\<close>

text \<open>
  A \<open>datetime\<close> or pandas \<open>Timestamp\<close> is the number of nanoseconds since the epoch. The
  \<open>.days\<close> of a difference is the floor of the difference in whole days, which is what
  \<open>div\<close> on \<open>int\<close> computes.
\<close>

type_synonym timestamp = int

definition day_ns :: int where
  "day_ns = 86400000000000"

definition days :: "int \<Rightarrow> int" where
  "days delta = delta div day_ns"

definition timedelta_days :: "int \<Rightarrow> int" where
  "timedelta_days n = n * day_ns"

definition py_int :: "real \<Rightarrow> int" where
  \<comment> \<open>Python's \<open>int(x)\<close> on a float: truncation towards zero.\<close>
  "py_int x = (if 0 \<le> x then \<lfloor>x\<rfloor> else \<lceil>x\<rceil>)"

section \<open>Strings\<close>

text \<open>
  Column names are ASCII strings. \<open>lower\<close> is \<open>str.lower\<close>, \<open>strip\<close> is \<open>str.strip\<close>,
  \<open>str_in sub s\<close> is Python's \<open>sub in s\<close>, and \<open>str.startswith\<close> is \<open>prefix\<close>.
\<close>

definition lower_char :: "char \<Rightarrow> char" where
  "lower_char c =
     (case map_of (zip ''ABCDEFGHIJKLMNOPQRSTUVWXYZ'' ''abcdefghijklmnopqrstuvwxyz'') c of
        Some d \<Rightarrow> d
      | None \<Rightarrow> c)"

definition lower :: "string \<Rightarrow> string" where
  "lower s = map lower_char s"

definition is_space :: "char \<Rightarrow> bool" where
  "is_space c = (c \<in> set [CHR 0x20, CHR 0x09, CHR 0x0A, CHR 0x0B, CHR 0x0C, CHR 0x0D,
                            CHR 0x1C, CHR 0x1D, CHR 0x1E, CHR 0x1F])"

definition strip :: "string \<Rightarrow> string" where
  "strip s = rev (dropWhile is_space (rev (dropWhile is_space s)))"

fun str_in :: "string \<Rightarrow> string \<Rightarrow> bool" where
  "str_in sub [] = (sub = [])"
| "str_in sub (c # cs) = (prefix sub (c # cs) \<or> str_in sub cs)"

section \<open>Library functions\<close>

text \<open>
  pandas, scipy and the string formatting of Python are not code of the repository; the
  functions the scripts call are arguments of the model. \<open>to_datetime\<close> is
  \<open>pd.to_datetime(errors='coerce')\<close> on one cell, \<open>None\<close> being \<open>NaT\<close>. \<open>linregress\<close>
  returns the slope, the intercept and the correlation coefficient, or raises
  \<open>ValueError\<close> (\<open>None\<close>), as scipy does on empty input. \<open>mean\<close> is \<open>Series.mean\<close>.
  \<open>format_1f\<close> and \<open>format_d\<close> are the f-string conversions \<open>{x:.1f}\<close> and \<open>{n}\<close>.

  The errors are the two \<open>sys.exit(1)\<close> of the market analysis that the model reaches,
  the \<open>ValueError\<close> of the regression, and \<open>ZeroDivisionError\<close>, which Python raises
  when Python numbers are divided by zero. Every division of the two scripts whose
  divisor can be zero is a division of pandas columns or numpy numbers, which returns
  an infinity or NaN instead: no branch of the model returns \<open>ZeroDivisionError\<close>.
\<close>

record library =
  to_datetime :: "string \<Rightarrow> timestamp option"
  linregress :: "fval list \<Rightarrow> fval list \<Rightarrow> (fval \<times> fval \<times> fval) option"
  mean :: "fval list \<Rightarrow> fval"
  format_1f :: "real \<Rightarrow> string"
  format_d :: "nat \<Rightarrow> string"

datatype error =
    Missing_Final_Columns "string list"
  | Missing_Form_Fields "string list"
  | ValueError
  | ZeroDivisionError

section \<open>Configuration (Market_Analysis.py, lines 85 to 105)\<close>

text \<open>
  The values extracted from the form. \<open>DATE_OF_VALUE\<close> is a \<open>datetime\<close>: midnight when the
  form's date parses, the current time otherwise.
\<close>

record config =
  SUBJECT_ADDRESS :: string
  SUBJECT_LIVING_AREA :: int
  DATE_OF_VALUE :: timestamp
  TIME_ADJUSTMENT_THRESHOLD_DAYS :: int
  LIVING_AREA_ADJUSTMENT_THRESHOLD_PCT :: fval

text \<open>The values of the form's JSON that the required-field test of line 261 reads.\<close>

datatype json = JNull | JBool bool | JNum fval | JStr string

fun truthy :: "json \<Rightarrow> bool" where
  "truthy JNull = False"
| "truthy (JBool b) = b"
| "truthy (JNum v) = (v \<noteq> Fin 0)"
| "truthy (JStr s) = (s \<noteq> [])"

type_synonym form_data = "string \<rightharpoonup> json"

section \<open>Column mapper (Market_Analysis.py, lines 210 to 247)\<close>

text \<open>
  The \<open>if\<close>/\<open>elif\<close> chain of lines 216 to 236 for one column: the canonical name that
  \<open>rename_map\<close> gets for it, or \<open>None\<close> when no branch matches.
\<close>

definition rename_map :: "string \<Rightarrow> string option" where
  "rename_map col =
     (let low = lower col in
      if (str_in ''price'' low \<and> (str_in ''close'' low \<or> str_in ''sale'' low))
           \<or> strip low = ''price''
        then Some ''Sale_Price''
      else if ((str_in ''close'' low \<or> str_in ''sale'' low) \<and> str_in ''date'' low)
           \<or> strip low \<in> set [''closedate'', ''saledate'']
        then Some ''Sale_Date''
      else if str_in ''living'' low \<or> str_in ''gla'' low \<or> str_in ''sqft'' low
           \<or> str_in ''square'' low
        then Some ''Living_Area''
      else if str_in ''bed'' low \<and> \<not> str_in ''room'' low
        then Some ''Bedrooms''
      else if str_in ''bath'' low
        then Some ''Bathrooms''
      else if str_in ''street number'' low \<or> str_in ''street_number'' low
           \<or> str_in ''street no'' low
        then Some ''Street_Number''
      else if (str_in ''street'' low \<and> str_in ''name'' low)
           \<or> (prefix ''street'' low \<and> \<not> str_in ''name'' low \<and> str_in ''st'' low)
        then Some ''Street_Name''
      else if ''dom'' = low \<or> str_in ''days on market'' low \<or> str_in ''days active'' low
           \<or> str_in ''days_active'' low
        then Some ''DOM''
      else if str_in ''cdom'' low \<or> str_in ''cumulative'' low
        then Some ''CDOM''
      else if str_in ''garage'' low
        then Some ''Garage''
      else None)"

text \<open>Lines 210 and 238 to 240: the column names after stripping and renaming.\<close>

definition renamed_columns :: "string list \<Rightarrow> string list" where
  "renamed_columns columns =
     map (\<lambda>col. case rename_map col of Some final \<Rightarrow> final | None \<Rightarrow> col)
       (map strip columns)"

definition required_final :: "string list" where
  "required_final = [''Sale_Price'', ''Sale_Date'', ''Living_Area'', ''Bedrooms'',
     ''Bathrooms'', ''Street_Number'', ''Street_Name'', ''DOM'', ''CDOM'', ''Garage'']"

definition missing_final :: "string list \<Rightarrow> string list" where
  "missing_final columns = filter (\<lambda>c. c \<notin> set (renamed_columns columns)) required_final"

text \<open>Lines 260 to 264, after the test of lines 243 to 247 on \<open>missing_final\<close>.\<close>

definition required_fields :: "string list" where
  "required_fields = [''address'', ''living_area'', ''bedrooms_total'', ''bathrooms_total'']"

definition missing_fields :: "form_data \<Rightarrow> string list" where
  "missing_fields form =
     filter (\<lambda>f. \<not> (case form f of None \<Rightarrow> False | Some v \<Rightarrow> truthy v)) required_fields"

section \<open>Sales loader and filter (Market_Analysis.py, lines 249 to 294)\<close>

text \<open>
  A row of the dataframe, with the three columns the computations read. The type of the
  date column changes along the way: the text of the CSV cell, then a timestamp or
  \<open>NaT\<close> after line 251, then a timestamp after the filter of line 269, which keeps no
  \<open>NaT\<close>. The price and living-area columns are numeric columns, and a row has one
  cell for each of the three: a table in which two headers are renamed to the same
  final column is outside the model.
\<close>

record 'd sale =
  Sale_Date :: 'd
  Sale_Price :: fval
  Living_Area :: fval

text \<open>Line 251.\<close>

definition parse_dates :: "library \<Rightarrow> string sale list \<Rightarrow> timestamp option sale list" where
  "parse_dates lib df =
     map (\<lambda>r. \<lparr>Sale_Date = to_datetime lib (Sale_Date r), Sale_Price = Sale_Price r,
                Living_Area = Living_Area r\<rparr>) df"

text \<open>Line 269: a comparison with \<open>NaT\<close> is false, so the row goes.\<close>

definition filter_dov :: "config \<Rightarrow> timestamp option sale list \<Rightarrow> timestamp sale list" where
  "filter_dov cfg df =
     List.map_filter
       (\<lambda>r. case Sale_Date r of
               None \<Rightarrow> None
             | Some t \<Rightarrow>
                 if t \<le> DATE_OF_VALUE cfg
                 then Some \<lparr>Sale_Date = t, Sale_Price = Sale_Price r,
                            Living_Area = Living_Area r\<rparr>
                 else None) df"

text \<open>A row of \<open>sales_data_processed.csv\<close>: lines 290 and 291 add two columns.\<close>

record proc_row = "timestamp sale" +
  Price_Per_SF :: fval
  Days_From_DOV :: int

definition derived_metrics :: "config \<Rightarrow> timestamp sale \<Rightarrow> proc_row" where
  "derived_metrics cfg r =
     sale.extend r
       (proc_row.fields (fdiv (Sale_Price r) (Living_Area r))
          (days (DATE_OF_VALUE cfg - Sale_Date r)))"

text \<open>
  Lines 290 to 294. \<open>sort_values\<close> is modelled by the stable insertion sort of the
  library; pandas leaves the order of rows with equal dates open.
\<close>

definition process_sales :: "config \<Rightarrow> timestamp sale list \<Rightarrow> proc_row list" where
  "process_sales cfg df = sort_key Sale_Date (map (derived_metrics cfg) df)"

section \<open>Period validator (Market_Analysis.py, lines 303 to 385)\<close>

fun max_list :: "'a::ord list \<Rightarrow> 'a" where
  "max_list (x # xs) = (case xs of [] \<Rightarrow> x | _ \<Rightarrow> max x (max_list xs))"

definition earliest_sale_of :: "proc_row list \<Rightarrow> timestamp" where
  "earliest_sale_of df = min_list (map Sale_Date df)"

definition latest_sale_of :: "proc_row list \<Rightarrow> timestamp" where
  "latest_sale_of df = max_list (map Sale_Date df)"

definition actual_coverage_days :: "config \<Rightarrow> proc_row list \<Rightarrow> int" where
  "actual_coverage_days cfg df = days (DATE_OF_VALUE cfg - earliest_sale_of df)"

definition actual_coverage_months :: "config \<Rightarrow> proc_row list \<Rightarrow> real" where
  "actual_coverage_months cfg df = of_int (actual_coverage_days cfg df) / 30.44"

definition time_periods :: "(string \<times> int) list" where
  "time_periods =
     [(''0-3 months'', 3), (''4-6 months'', 6), (''7-9 months'', 9), (''9-12 months'', 12),
      (''0-6 months'', 6), (''0-12 months'', 12), (''0-18 months'', 18),
      (''0-24 months'', 24), (''0-36 months'', 36)]"

definition buffer_months :: real where
  "buffer_months = 1"

record period =
  name :: string
  months :: int
  sales_count :: nat

record valid_period = period +
  cutoff_date :: timestamp
  status :: string

record omitted_period = period +
  reason :: string

text \<open>Line 339.\<close>

definition cutoff_date_of :: "config \<Rightarrow> int \<Rightarrow> timestamp" where
  "cutoff_date_of cfg period_months =
     DATE_OF_VALUE cfg - timedelta_days (py_int (of_int period_months * 30.44))"

text \<open>Lines 342 and 343.\<close>

definition sales_count_of :: "config \<Rightarrow> proc_row list \<Rightarrow> int \<Rightarrow> nat" where
  "sales_count_of cfg df period_months =
     length (filter (\<lambda>r. Sale_Date r \<ge> cutoff_date_of cfg period_months) df)"

text \<open>
  One iteration of the loop of lines 337 to 385 on the pair of lists
  (\<open>valid_periods\<close>, \<open>omitted_periods\<close>). The dictionary \<open>period_sales_counts\<close> is
  written and never read, and the flag for fewer than three sales is only printed:
  both are left out.
\<close>

definition validate_period ::
  "library \<Rightarrow> config \<Rightarrow> proc_row list \<Rightarrow> valid_period list \<times> omitted_period list \<Rightarrow>
   string \<times> int \<Rightarrow> valid_period list \<times> omitted_period list" where
  "validate_period lib cfg df st p =
     (let (valid_periods, omitted_periods) = st;
          (period_name, period_months) = p;
          cutoff = cutoff_date_of cfg period_months;
          n = sales_count_of cfg df period_months
      in if of_int period_months > actual_coverage_months cfg df + buffer_months
         then (valid_periods,
               omitted_periods @
                 [\<lparr>name = period_name, months = period_months, sales_count = n,
                   reason = ''extends beyond data coverage (''
                     @ format_1f lib (actual_coverage_months cfg df) @ '' months)''\<rparr>])
         else if valid_periods \<noteq> [] \<and> n = sales_count (last valid_periods)
         then (valid_periods,
               omitted_periods @
                 [\<lparr>name = period_name, months = period_months, sales_count = n,
                   reason = ''identical sales count to '' @ name (last valid_periods)
                     @ '' (n='' @ format_d lib n @ '')''\<rparr>])
         else (valid_periods @
                 [\<lparr>name = period_name, months = period_months, sales_count = n,
                   cutoff_date = cutoff, status = ''valid''\<rparr>],
               omitted_periods))"

definition validate_periods ::
  "library \<Rightarrow> config \<Rightarrow> proc_row list \<Rightarrow> valid_period list \<times> omitted_period list" where
  "validate_periods lib cfg df = foldl (validate_period lib cfg df) ([], []) time_periods"

section \<open>Trend estimator (Market_Analysis.py, lines 439 to 507)\<close>

record trend_results =
  slope_price :: fval
  daily_price_change :: fval
  monthly_price_change_pct :: fval
  slope_pricesf :: fval
  market_trend :: string
  r_squared :: fval

text \<open>Lines 440 to 445.\<close>

definition trend_df_of :: "config \<Rightarrow> valid_period list \<Rightarrow> proc_row list \<Rightarrow> proc_row list" where
  "trend_df_of cfg valid_periods df =
     (if ''0-12 months'' \<in> set (map name valid_periods)
      then filter (\<lambda>r. Sale_Date r \<ge>
                     DATE_OF_VALUE cfg - timedelta_days (py_int (12 * 30.44))) df
      else df)"

text \<open>Line 448.\<close>

definition days_numeric :: "proc_row list \<Rightarrow> fval list" where
  "days_numeric trend_df =
     map (\<lambda>r. Fin (of_int (days (Sale_Date r - min_list (map Sale_Date trend_df))))) trend_df"

text \<open>
  Lines 452 to 460: the two regressions, as the triples (slope, intercept, r value) for
  the price and for the price per area. The variables keep their initial zeros when
  there are fewer than two rows.
\<close>

definition regressions ::
  "library \<Rightarrow> proc_row list \<Rightarrow> error + (fval \<times> fval \<times> fval) \<times> (fval \<times> fval \<times> fval)" where
  "regressions lib trend_df =
     (if length trend_df \<ge> 2
      then (case linregress lib (days_numeric trend_df) (map Sale_Price trend_df) of
              None \<Rightarrow> Inl ValueError
            | Some price \<Rightarrow>
                (case linregress lib (days_numeric trend_df) (map Price_Per_SF trend_df) of
                   None \<Rightarrow> Inl ValueError
                 | Some pricesf \<Rightarrow> Inr (price, pricesf)))
      else Inr ((Fin 0, Fin 0, Fin 0), (Fin 0, Fin 0, Fin 0)))"

text \<open>Lines 480 to 487.\<close>

definition classify_trend :: "fval \<Rightarrow> fval \<Rightarrow> string" where
  "classify_trend daily r_value_price =
     (if fgt daily (Fin 0.50) then ''INCREASING''
      else if flt daily (Fin (- 0.50)) then ''DECREASING''
      else if flt (fmul r_value_price r_value_price) (Fin 0.3) then ''UNSTABLE''
      else ''STABLE'')"

text \<open>Lines 462 to 507: the dictionary \<open>trend_results\<close>.\<close>

definition trend_results_of ::
  "library \<Rightarrow> proc_row list \<Rightarrow> (fval \<times> fval \<times> fval) \<times> (fval \<times> fval \<times> fval) \<Rightarrow>
   trend_results" where
  "trend_results_of lib trend_df regs =
     (let ((slope_p, intercept_p, r_value_p), (slope_psf, intercept_psf, r_value_psf)) = regs
      in if length trend_df \<ge> 2
         then \<lparr>slope_price = slope_p,
               daily_price_change = slope_p,
               monthly_price_change_pct =
                 fmul (fdiv (fmul slope_p (Fin 30.44)) (mean lib (map Sale_Price trend_df)))
                   (Fin 100),
               slope_pricesf = slope_psf,
               market_trend = classify_trend slope_p r_value_p,
               r_squared = fmul r_value_p r_value_p\<rparr>
         else \<lparr>slope_price = Fin 0, daily_price_change = Fin 0,
               monthly_price_change_pct = Fin 0, slope_pricesf = Fin 0,
               market_trend = ''INSUFFICIENT DATA'', r_squared = Fin 0\<rparr>)"

definition trend_analysis ::
  "library \<Rightarrow> config \<Rightarrow> valid_period list \<Rightarrow> proc_row list \<Rightarrow> error + trend_results" where
  "trend_analysis lib cfg valid_periods df =
     (let trend_df = trend_df_of cfg valid_periods df in
      case regressions lib trend_df of
        Inl e \<Rightarrow> Inl e
      | Inr regs \<Rightarrow> Inr (trend_results_of lib trend_df regs))"

section \<open>The market analysis script\<close>

text \<open>
  \<open>validation_info.json\<close> is a dictionary: a key that a run does not write is \<open>None\<close>.
  The subject's bedrooms, bathrooms, garage and year, the report information and the
  market segment are copied from the form and are left out.
\<close>

record validation_info =
  date_of_value :: timestamp
  message :: "string option"
  subject_property :: "string \<times> int"
  earliest_sale :: "timestamp option"
  latest_sale :: "timestamp option"
  coverage_months :: "real option"
  valid_periods :: "valid_period list option"
  omitted_periods :: "omitted_period list option"
  trend :: "trend_results option"
  thresholds :: "(int \<times> fval) option"

text \<open>
  What a run that ends with exit status 0 leaves: the count printed at line 271, the
  rows of \<open>sales_data_processed.csv\<close> and \<open>validation_info.json\<close>. The statistics table of
  lines 397 to 431 is computed from the same filtered rows and is left out.
\<close>

record run_output =
  printed_sales_count :: nat
  sales_data_processed :: "proc_row list"
  validation :: validation_info

text \<open>Lines 273 to 287.\<close>

definition no_sales_output :: "config \<Rightarrow> run_output" where
  "no_sales_output cfg =
     \<lparr>printed_sales_count = 0,
      sales_data_processed = [],
      validation =
        \<lparr>date_of_value = DATE_OF_VALUE cfg,
         message = Some ''No sales on or before date of value'',
         subject_property = (SUBJECT_ADDRESS cfg, SUBJECT_LIVING_AREA cfg),
         earliest_sale = None, latest_sale = None, coverage_months = None,
         valid_periods = None, omitted_periods = None, trend = None,
         thresholds = None\<rparr>\<rparr>"

text \<open>Lines 289 to 550 on the non-empty filtered table.\<close>

definition analyse :: "library \<Rightarrow> config \<Rightarrow> timestamp sale list \<Rightarrow> error + run_output" where
  "analyse lib cfg filtered =
     (let df = process_sales cfg filtered;
          (valid, omitted) = validate_periods lib cfg df
      in case trend_analysis lib cfg valid df of
           Inl e \<Rightarrow> Inl e
         | Inr tr \<Rightarrow>
             Inr \<lparr>printed_sales_count = length filtered,
                  sales_data_processed = df,
                  validation =
                    \<lparr>date_of_value = DATE_OF_VALUE cfg,
                     message = None,
                     subject_property = (SUBJECT_ADDRESS cfg, SUBJECT_LIVING_AREA cfg),
                     earliest_sale = Some (earliest_sale_of df),
                     latest_sale = Some (latest_sale_of df),
                     coverage_months = Some (actual_coverage_months cfg df),
                     valid_periods = Some valid,
                     omitted_periods = Some omitted,
                     trend = Some tr,
                     thresholds = Some (TIME_ADJUSTMENT_THRESHOLD_DAYS cfg,
                                        LIVING_AREA_ADJUSTMENT_THRESHOLD_PCT cfg)\<rparr>\<rparr>)"

text \<open>
  Lines 207 to 550: the column check, the date parsing, the form check, the filter, and
  then either the empty branch or the analysis. \<open>Inl\<close> is a run that stops with an error.
\<close>

definition market_analysis ::
  "library \<Rightarrow> config \<Rightarrow> form_data \<Rightarrow> string list \<Rightarrow> string sale list \<Rightarrow> error + run_output" where
  "market_analysis lib cfg form columns rows =
     (if missing_final columns \<noteq> [] then Inl (Missing_Final_Columns (missing_final columns))
      else if missing_fields form \<noteq> [] then Inl (Missing_Form_Fields (missing_fields form))
      else (let filtered = filter_dov cfg (parse_dates lib rows)
            in if filtered = [] then Inr (no_sales_output cfg)
               else analyse lib cfg filtered))"

section \<open>Adjustment engine (Adjustment_Analysis_.py)\<close>

text \<open>
  The script reads \<open>sales_data_processed.csv\<close> back as its rows, and its configuration
  from \<open>validation_info.json\<close> (lines 46 to 54): the subject's living area, the date of
  value and the two thresholds as the market analysis wrote them, and the dictionary
  \<open>trend_results\<close>.
\<close>

record adj_config = config +
  trend_results :: trend_results

definition TIME_THRESHOLD_DAYS :: "adj_config \<Rightarrow> int" where
  "TIME_THRESHOLD_DAYS cfg = TIME_ADJUSTMENT_THRESHOLD_DAYS cfg"

definition SF_THRESHOLD_PCT :: "adj_config \<Rightarrow> fval" where
  "SF_THRESHOLD_PCT cfg = LIVING_AREA_ADJUSTMENT_THRESHOLD_PCT cfg"

definition monthly_trend_pct :: "adj_config \<Rightarrow> fval" where
  "monthly_trend_pct cfg = monthly_price_change_pct (trend_results cfg)"

text \<open>One row of \<open>adjusted_sales.csv\<close>: the processed row and the columns added to it.\<close>

record adj_row = proc_row +
  Days_Difference :: int
  Time_Adj_Amount :: fval
  Time_Adj_Pct :: fval
  SF_Difference :: fval
  SF_Difference_Pct :: fval
  SF_Adj_Amount :: fval
  SF_Adj_Pct :: fval
  Net_Adj_Amount :: fval
  Net_Adj_Pct :: fval
  Adjusted_Sale_Price :: fval
  Adjusted_Price_Per_SF :: fval

text \<open>Line 81.\<close>

definition days_difference :: "adj_config \<Rightarrow> proc_row \<Rightarrow> int" where
  "days_difference cfg r = days (DATE_OF_VALUE cfg - Sale_Date r)"

text \<open>
  Lines 84 to 97: both columns start at \<open>0.0\<close> and are overwritten inside the threshold
  test. The result is the pair (amount, percentage).
\<close>

definition time_adjustment :: "adj_config \<Rightarrow> int \<Rightarrow> fval \<times> fval" where
  "time_adjustment cfg days_diff =
     (if \<bar>days_diff\<bar> > TIME_THRESHOLD_DAYS cfg
      then (fmul (daily_price_change (trend_results cfg)) (Fin (of_int days_diff)),
            fmul (fdiv (monthly_trend_pct cfg) (Fin 30.44)) (Fin (of_int days_diff)))
      else (Fin 0, Fin 0))"

text \<open>Lines 111 and 112.\<close>

definition sf_difference :: "adj_config \<Rightarrow> proc_row \<Rightarrow> fval" where
  "sf_difference cfg r = fsub (Living_Area r) (Fin (of_int (SUBJECT_LIVING_AREA cfg)))"

definition sf_difference_pct :: "adj_config \<Rightarrow> proc_row \<Rightarrow> fval" where
  "sf_difference_pct cfg r =
     fmul (fdiv (sf_difference cfg r) (Fin (of_int (SUBJECT_LIVING_AREA cfg)))) (Fin 100)"

text \<open>
  Lines 125 to 138, with the regression slope \<open>marginal_value_per_sf\<close> of line 119 as
  an argument. The result is the pair (amount, percentage).
\<close>

definition sf_adjustment :: "adj_config \<Rightarrow> fval \<Rightarrow> proc_row \<Rightarrow> fval \<times> fval" where
  "sf_adjustment cfg marginal_value_per_sf r =
     (let sf_diff_pct = fabs (sf_difference_pct cfg r) in
      if fgt sf_diff_pct (SF_THRESHOLD_PCT cfg)
      then (let sf_diff = sf_difference cfg r in
            (fmul (fneg sf_diff) marginal_value_per_sf,
             fmul (fneg (fdiv sf_diff (Fin (of_int (SUBJECT_LIVING_AREA cfg))))) (Fin 100)))
      else (Fin 0, Fin 0))"

text \<open>Lines 81 to 155 for one row.\<close>

definition adjust_row :: "adj_config \<Rightarrow> fval \<Rightarrow> proc_row \<Rightarrow> adj_row" where
  "adjust_row cfg marginal_value_per_sf r =
     (let dd = days_difference cfg r;
          (t_amt, t_pct) = time_adjustment cfg dd;
          (s_amt, s_pct) = sf_adjustment cfg marginal_value_per_sf r;
          net_amt = fadd t_amt s_amt;
          net_pct = fadd t_pct s_pct;
          adjusted = fadd (Sale_Price r) net_amt
      in proc_row.extend r
           (adj_row.fields dd t_amt t_pct (sf_difference cfg r) (sf_difference_pct cfg r)
              s_amt s_pct net_amt net_pct adjusted (fdiv adjusted (Living_Area r))))"

text \<open>The whole script: the regression of lines 116 and 117, then every row.\<close>

definition adjustment_analysis ::
  "library \<Rightarrow> adj_config \<Rightarrow> proc_row list \<Rightarrow> error + adj_row list" where
  "adjustment_analysis lib cfg comp_sales =
     (case linregress lib (map Living_Area comp_sales) (map Sale_Price comp_sales) of
        None \<Rightarrow> Inl ValueError
      | Some (slope_sf, intercept_sf, r_value_sf) \<Rightarrow>
          Inr (map (adjust_row cfg slope_sf) comp_sales))"

section \<open>Invariant of the validation loop\<close>

text \<open>
  What holds of the two lists after the loop of lines 337 to 385 has run over the
  candidates \<open>ps\<close>: the valid periods are the candidates whose name was accepted, the
  omitted periods are the others, both in the order of the candidates, and every entry
  carries the sale count of its window.
\<close>

definition ladder_inv ::
  "config \<Rightarrow> proc_row list \<Rightarrow> (string \<times> int) list \<Rightarrow>
   valid_period list \<times> omitted_period list \<Rightarrow> bool" where
  "ladder_inv cfg df ps st =
     (map (\<lambda>p. (name p, months p)) (fst st) =
        filter (\<lambda>q. fst q \<in> set (map name (fst st))) ps \<and>
      map (\<lambda>p. (name p, months p)) (snd st) =
        filter (\<lambda>q. fst q \<notin> set (map name (fst st))) ps \<and>
      set (map name (fst st)) \<subseteq> set (map fst ps) \<and>
      (\<forall>p \<in> set (snd st).
         reason p \<noteq> [] \<and> sales_count p = sales_count_of cfg df (months p)) \<and>
      (\<forall>p \<in> set (fst st).
         sales_count p = sales_count_of cfg df (months p) \<and>
         cutoff_date p = cutoff_date_of cfg (months p)))"

section \<open>Example data\<close>

text \<open>
  A date of value of 2024-01-01 (day 19723 after the epoch), a subject of 2000 square
  feet, thresholds of 30 days and 5 percent, and library functions that answer the few
  calls the examples make.
\<close>

definition demo_config :: config where
  "demo_config =
     \<lparr>SUBJECT_ADDRESS = ''1 Main St'', SUBJECT_LIVING_AREA = 2000,
      DATE_OF_VALUE = timedelta_days 19723, TIME_ADJUSTMENT_THRESHOLD_DAYS = 30,
      LIVING_AREA_ADJUSTMENT_THRESHOLD_PCT = Fin 5\<rparr>"

definition demo_trend :: trend_results where
  "demo_trend =
     \<lparr>slope_price = Fin 50, daily_price_change = Fin 50,
      monthly_price_change_pct = Fin 0.5, slope_pricesf = Fin 0,
      market_trend = ''INCREASING'', r_squared = Fin 1\<rparr>"

definition demo_adj_config :: adj_config where
  "demo_adj_config = config.extend demo_config (adj_config.fields demo_trend)"

definition demo_lib :: library where
  "demo_lib =
     \<lparr>to_datetime = (\<lambda>s. if s = ''2023-12-22'' then Some (timedelta_days 19713)
                          else if s = ''2023-11-02'' then Some (timedelta_days 19663)
                          else if s = ''2024-02-01'' then Some (timedelta_days 19754)
                          else None),
      linregress = (\<lambda>xs ys. if xs = [] then None else Some (Fin 100, Fin 0, Fin 0.1)),
      mean = (\<lambda>xs. Fin 300000),
      format_1f = (\<lambda>x. ''?''),
      format_d = (\<lambda>n. ''?'')\<rparr>"

text \<open>A processed sale \<open>d\<close> days before the date of value, with its price and area.\<close>

definition demo_sale :: "int \<Rightarrow> fval \<Rightarrow> fval \<Rightarrow> proc_row" where
  "demo_sale d price area =
     \<lparr>Sale_Date = timedelta_days (19723 - d), Sale_Price = price, Living_Area = area,
      Price_Per_SF = fdiv price area, Days_From_DOV = d\<rparr>"

definition demo_comps :: "proc_row list" where
  "demo_comps =
     [demo_sale 5 (Fin 300000) (Fin 2000), demo_sale 30 (Fin 305000) (Fin 2050),
      demo_sale 60 (Fin 310000) (Fin 2200)]"

text \<open>
  Four sales 340, 200, 20 and 10 days before the date of value: the windows of 3 and 6
  months hold two sales each, those of 9 and 12 months three and four.
\<close>

definition tie_df :: "proc_row list" where
  "tie_df =
     [demo_sale 340 (Fin 290000) (Fin 1900), demo_sale 200 (Fin 295000) (Fin 1950),
      demo_sale 20 (Fin 300000) (Fin 2000), demo_sale 10 (Fin 310000) (Fin 2200)]"

text \<open>One sale 91 days and 6 hours before the date of value.\<close>

definition late_df :: "proc_row list" where
  "late_df =
     [\<lparr>Sale_Date = timedelta_days 19632 - 21600000000000, Sale_Price = Fin 300000,
       Living_Area = Fin 2000, Price_Per_SF = Fin 150, Days_From_DOV = 91\<rparr>]"

text \<open>
  The cutoff in the words of the specification, \<open>date_of_value - months * 30.44 days\<close>
  without truncation to whole days, and the count of sales on or after it.
\<close>

definition cutoff_date_as_specified :: "config \<Rightarrow> int \<Rightarrow> real" where
  "cutoff_date_as_specified cfg period_months =
     of_int (DATE_OF_VALUE cfg) - of_int period_months * 30.44 * of_int day_ns"

definition sales_count_as_specified :: "config \<Rightarrow> proc_row list \<Rightarrow> int \<Rightarrow> nat" where
  "sales_count_as_specified cfg df period_months =
     length (filter (\<lambda>r. of_int (Sale_Date r) \<ge> cutoff_date_as_specified cfg period_months) df)"


text \<open>Headers that resolve to the ten final columns, and headers that resolve to three.\<close>

definition demo_columns :: "string list" where
  "demo_columns =
     [''Close Price'', ''Close Date'', ''Living Area'', ''Beds'', ''Baths'',
      ''Street Number'', ''Street Name'', ''DOM'', ''CDOM'', '' Garage '']"

definition three_columns :: "string list" where
  "three_columns = [''Close Price'', ''Close Date'', ''Living Area'']"

definition demo_form :: form_data where
  "demo_form =
     [''address'' \<mapsto> JStr ''1 Main St'', ''living_area'' \<mapsto> JNum (Fin 2000),
      ''bedrooms_total'' \<mapsto> JNum (Fin 3), ''bathrooms_total'' \<mapsto> JNum (Fin 2)]"

text \<open>
  Rows of a CSV: a sale 10 days before the date of value, a row whose date does not
  parse, a sale after the date of value and a sale 60 days before it; and the same rows
  without the one whose date does not parse.
\<close>

definition demo_rows :: "string sale list" where
  "demo_rows =
     [\<lparr>Sale_Date = ''2023-12-22'', Sale_Price = Fin 310000, Living_Area = Fin 2200\<rparr>,
      \<lparr>Sale_Date = ''n/a'', Sale_Price = Fin 250000, Living_Area = Fin 1500\<rparr>,
      \<lparr>Sale_Date = ''2024-02-01'', Sale_Price = Fin 320000, Living_Area = Fin 2100\<rparr>,
      \<lparr>Sale_Date = ''2023-11-02'', Sale_Price = Fin 300000, Living_Area = Fin 2000\<rparr>]"


definition future_rows :: "string sale list" where
  "future_rows =
     [\<lparr>Sale_Date = ''2024-02-01'', Sale_Price = Fin 320000, Living_Area = Fin 2100\<rparr>,
      \<lparr>Sale_Date = ''n/a'', Sale_Price = Fin 250000, Living_Area = Fin 1500\<rparr>]"

text \<open>What the run on \<open>demo_rows\<close> leaves: 60 days of coverage admit no period.\<close>

definition demo_omitted :: "string \<times> int \<Rightarrow> omitted_period" where
  "demo_omitted p =
     \<lparr>name = fst p, months = snd p, sales_count = 2,
      reason = ''extends beyond data coverage (? months)''\<rparr>"

definition demo_output :: run_output where
  "demo_output =
     \<lparr>printed_sales_count = 2,
      sales_data_processed =
        [demo_sale 60 (Fin 300000) (Fin 2000), demo_sale 10 (Fin 310000) (Fin 2200)],
      validation =
        \<lparr>date_of_value = timedelta_days 19723,
         message = None,
         subject_property = (''1 Main St'', 2000),
         earliest_sale = Some (timedelta_days 19663),
         latest_sale = Some (timedelta_days 19713),
         coverage_months = Some (60 / 30.44),
         valid_periods = Some [],
         omitted_periods = Some (map demo_omitted time_periods),
         trend = Some \<lparr>slope_price = Fin 100, daily_price_change = Fin 100,
                       monthly_price_change_pct = Fin (3044 / 3000),
                       slope_pricesf = Fin 100, market_trend = ''INCREASING'',
                       r_squared = Fin 0.01\<rparr>,
         thresholds = Some (30, Fin 5)\<rparr>\<rparr>"

section \<open>Arithmetic of the numeric values\<close>





section \<open>Properties of the adjustment engine\<close>


lemma adjust_row_time:
  "Days_Difference (adjust_row cfg m r) = days_difference cfg r"
  "Time_Adj_Amount (adjust_row cfg m r) = fst (time_adjustment cfg (days_difference cfg r))"
  "Time_Adj_Pct (adjust_row cfg m r) = snd (time_adjustment cfg (days_difference cfg r))"
  by (simp_all add: adjust_row_def Let_def proc_row.defs adj_row.defs split: prod.splits)



lemma adjustment_analysis_Inr:
  assumes "adjustment_analysis lib cfg comp_sales = Inr out"
  shows "\<exists>m. out = map (adjust_row cfg m) comp_sales"
  using assms by (auto simp: adjustment_analysis_def split: option.splits)

lemmas demo_adj_defs =
  demo_lib_def demo_adj_config_def demo_config_def demo_trend_def demo_comps_def
  demo_sale_def config.defs adj_config.defs
  timedelta_days_def day_ns_def days_def days_difference_def time_adjustment_def
  sf_adjustment_def sf_difference_def sf_difference_pct_def fsub_def fgt_def
  TIME_THRESHOLD_DAYS_def SF_THRESHOLD_PCT_def monthly_trend_pct_def

lemma demo_adjustment_run:
  "adjustment_analysis demo_lib demo_adj_config demo_comps =
     Inr (map (adjust_row demo_adj_config (Fin 100)) demo_comps)"
  by (simp add: adjustment_analysis_def demo_lib_def demo_comps_def)



text \<open>
  C2. For every comparable, the days difference is the whole days from the sale date to
  the date of value; when its absolute value is strictly greater than the time threshold
  the time adjustment is the daily change times the days difference and the percentage
  is the monthly change divided by 30.44 times the days difference; otherwise, and so
  when the absolute value equals the threshold, both are zero.
\<close>

theorem time_adjustment_threshold:
  assumes "adjustment_analysis lib cfg comp_sales = Inr out" and "i < length out"
  shows "Days_Difference (out ! i) = days (DATE_OF_VALUE cfg - Sale_Date (comp_sales ! i)) \<and>
         (if \<bar>Days_Difference (out ! i)\<bar> > TIME_THRESHOLD_DAYS cfg
          then Time_Adj_Amount (out ! i) =
                 fmul (daily_price_change (trend_results cfg))
                   (Fin (of_int (Days_Difference (out ! i)))) \<and>
               Time_Adj_Pct (out ! i) =
                 fmul (fdiv (monthly_trend_pct cfg) (Fin 30.44))
                   (Fin (of_int (Days_Difference (out ! i))))
          else Time_Adj_Amount (out ! i) = Fin 0 \<and> Time_Adj_Pct (out ! i) = Fin 0)"
proof -
  from assms(1) obtain m where out: "out = map (adjust_row cfg m) comp_sales"
    by (auto dest!: adjustment_analysis_Inr)
  with assms(2) have i: "i < length comp_sales" by simp
  show ?thesis unfolding out using i
    by (simp add: adjust_row_time days_difference_def time_adjustment_def)
qed

theorem time_adjustment_threshold_witness:
  "adjustment_analysis demo_lib demo_adj_config demo_comps =
     Inr (map (adjust_row demo_adj_config (Fin 100)) demo_comps) \<and>
   TIME_THRESHOLD_DAYS demo_adj_config = 30 \<and>
   map Days_Difference (map (adjust_row demo_adj_config (Fin 100)) demo_comps) = [5, 30, 60] \<and>
   map Time_Adj_Amount (map (adjust_row demo_adj_config (Fin 100)) demo_comps) =
     [Fin 0, Fin 0, fmul (Fin 50) (Fin 60)] \<and>
   map Time_Adj_Pct (map (adjust_row demo_adj_config (Fin 100)) demo_comps) =
     [Fin 0, Fin 0, fmul (fdiv (Fin 0.5) (Fin 30.44)) (Fin 60)]"
  using time_adjustment_threshold [OF demo_adjustment_run, of 1]
    time_adjustment_threshold [OF demo_adjustment_run, of 2] demo_adjustment_run
  by (simp add: adjust_row_time demo_adj_defs)

section \<open>Zero and missing living area\<close>

lemma derived_metrics_fields:
  "Sale_Date (derived_metrics cfg r) = Sale_Date r"
  "Sale_Price (derived_metrics cfg r) = Sale_Price r"
  "Living_Area (derived_metrics cfg r) = Living_Area r"
  "Price_Per_SF (derived_metrics cfg r) = fdiv (Sale_Price r) (Living_Area r)"
  "Days_From_DOV (derived_metrics cfg r) = days (DATE_OF_VALUE cfg - Sale_Date r)"
  by (simp_all add: derived_metrics_def sale.defs proc_row.defs)









section \<open>Properties of the trend estimator\<close>

text \<open>
  C4. When the regression runs (two rows or more in the trend window) and returns a
  slope and a correlation coefficient, the daily change is the slope, R squared is the
  square of the coefficient, and the label is the first match of: slope above 0.50,
  INCREASING; slope below minus 0.50, DECREASING; R squared below 0.3, UNSTABLE;
  otherwise STABLE. So a slope above 0.50 with R squared below 0.3 is INCREASING.
\<close>

theorem market_trend_first_match:
  assumes "trend_analysis lib cfg valid df = Inr tr"
      and "2 \<le> length (trend_df_of cfg valid df)"
      and "linregress lib (days_numeric (trend_df_of cfg valid df))
             (map Sale_Price (trend_df_of cfg valid df)) = Some (slope, intercept, r_value)"
  shows "daily_price_change tr = slope \<and> r_squared tr = fmul r_value r_value \<and>
         market_trend tr =
           (if fgt slope (Fin 0.50) then ''INCREASING''
            else if flt slope (Fin (- 0.50)) then ''DECREASING''
            else if flt (r_squared tr) (Fin 0.3) then ''UNSTABLE''
            else ''STABLE'') \<and>
         (fgt slope (Fin 0.50) \<and> flt (r_squared tr) (Fin 0.3) \<longrightarrow>
            market_trend tr = ''INCREASING'')"
  using assms
  by (auto simp: trend_analysis_def regressions_def trend_results_of_def classify_trend_def
      Let_def split: option.splits)

lemma demo_trend_run:
  "trend_analysis demo_lib demo_config [] demo_comps =
     Inr \<lparr>slope_price = Fin 100, daily_price_change = Fin 100,
          monthly_price_change_pct = Fin (3044 / 3000), slope_pricesf = Fin 100,
          market_trend = ''INCREASING'', r_squared = Fin 0.01\<rparr>"
  by (simp add: trend_analysis_def regressions_def trend_results_of_def classify_trend_def
      trend_df_of_def days_numeric_def demo_lib_def demo_comps_def fgt_def Let_def)

theorem market_trend_first_match_witness:
  "trend_analysis demo_lib demo_config [] demo_comps =
     Inr \<lparr>slope_price = Fin 100, daily_price_change = Fin 100,
          monthly_price_change_pct = Fin (3044 / 3000), slope_pricesf = Fin 100,
          market_trend = ''INCREASING'', r_squared = Fin 0.01\<rparr> \<and>
   2 \<le> length (trend_df_of demo_config [] demo_comps) \<and>
   linregress demo_lib (days_numeric (trend_df_of demo_config [] demo_comps))
     (map Sale_Price (trend_df_of demo_config [] demo_comps)) =
     Some (Fin 100, Fin 0, Fin 0.1) \<and>
   fgt (Fin 100) (Fin 0.50) \<and> flt (Fin 0.01) (Fin 0.3)"
  using market_trend_first_match [OF demo_trend_run, of "Fin 100" "Fin 0" "Fin 0.1"]
    demo_trend_run
  by (simp add: trend_df_of_def days_numeric_def demo_lib_def demo_comps_def fgt_def)

section \<open>Properties of the market analysis script\<close>

lemma py_int_months:
  "py_int (3 * 30.44) = 91" "py_int (6 * 30.44) = 182" "py_int (9 * 30.44) = 273"
  "py_int (12 * 30.44) = 365" "py_int (18 * 30.44) = 547" "py_int (24 * 30.44) = 730"
  "py_int (36 * 30.44) = 1095"
  by (simp_all add: py_int_def floor_eq_iff)

lemma demo_missing_final: "missing_final demo_columns = []"
  by code_simp

lemma three_missing_final:
  "missing_final three_columns =
     [''Bedrooms'', ''Bathrooms'', ''Street_Number'', ''Street_Name'', ''DOM'', ''CDOM'',
      ''Garage'']"
  by code_simp

lemma three_rename_map:
  "map rename_map three_columns = [Some ''Sale_Price'', Some ''Sale_Date'', Some ''Living_Area'']"
  by code_simp

lemma demo_missing_fields: "missing_fields demo_form = []"
  by (simp add: missing_fields_def demo_form_def required_fields_def)

lemma demo_filtered:
  "filter_dov demo_config (parse_dates demo_lib demo_rows) =
     [\<lparr>Sale_Date = timedelta_days 19713, Sale_Price = Fin 310000, Living_Area = Fin 2200\<rparr>,
      \<lparr>Sale_Date = timedelta_days 19663, Sale_Price = Fin 300000, Living_Area = Fin 2000\<rparr>]"
  by (simp add: filter_dov_def parse_dates_def demo_lib_def demo_rows_def demo_config_def
      List.map_filter_simps timedelta_days_def day_ns_def)


lemma future_filtered: "filter_dov demo_config (parse_dates demo_lib future_rows) = []"
  by (simp add: filter_dov_def parse_dates_def demo_lib_def future_rows_def demo_config_def
      List.map_filter_simps timedelta_days_def day_ns_def)

lemma demo_processed:
  "process_sales demo_config
     [\<lparr>Sale_Date = timedelta_days 19713, Sale_Price = Fin 310000, Living_Area = Fin 2200\<rparr>,
      \<lparr>Sale_Date = timedelta_days 19663, Sale_Price = Fin 300000, Living_Area = Fin 2000\<rparr>] =
     [demo_sale 60 (Fin 300000) (Fin 2000), demo_sale 10 (Fin 310000) (Fin 2200)]"
  by (simp add: process_sales_def derived_metrics_def sale.defs proc_row.defs demo_sale_def
      demo_config_def timedelta_days_def day_ns_def days_def)

lemma demo_coverage:
  "actual_coverage_months demo_config
     [demo_sale 60 (Fin 300000) (Fin 2000), demo_sale 10 (Fin 310000) (Fin 2200)] = 60 / 30.44"
  by (simp add: actual_coverage_months_def actual_coverage_days_def earliest_sale_of_def
      demo_sale_def demo_config_def timedelta_days_def day_ns_def days_def)

lemma demo_cutoffs:
  "cutoff_date_of demo_config 3 = timedelta_days 19632"
  "cutoff_date_of demo_config 6 = timedelta_days 19541"
  "cutoff_date_of demo_config 9 = timedelta_days 19450"
  "cutoff_date_of demo_config 12 = timedelta_days 19358"
  "cutoff_date_of demo_config 18 = timedelta_days 19176"
  "cutoff_date_of demo_config 24 = timedelta_days 18993"
  "cutoff_date_of demo_config 36 = timedelta_days 18628"
  by (simp_all add: cutoff_date_of_def demo_config_def timedelta_days_def py_int_def
      floor_eq_iff)

lemma demo_counts:
  "sales_count_of demo_config
     [demo_sale 60 (Fin 300000) (Fin 2000), demo_sale 10 (Fin 310000) (Fin 2200)] m =
     (if cutoff_date_of demo_config m \<le> timedelta_days 19663 then 2
      else if cutoff_date_of demo_config m \<le> timedelta_days 19713 then 1 else 0)"
  by (simp add: sales_count_of_def demo_sale_def timedelta_days_def day_ns_def)

lemma demo_validate:
  "validate_periods demo_lib demo_config
     [demo_sale 60 (Fin 300000) (Fin 2000), demo_sale 10 (Fin 310000) (Fin 2200)] =
     ([], map demo_omitted time_periods)"
  by (simp add: validate_periods_def time_periods_def validate_period_def demo_coverage
      demo_counts demo_cutoffs buffer_months_def demo_omitted_def demo_lib_def
      timedelta_days_def day_ns_def Let_def)

lemma demo_trend_two:
  "trend_analysis demo_lib demo_config []
     [demo_sale 60 (Fin 300000) (Fin 2000), demo_sale 10 (Fin 310000) (Fin 2200)] =
     Inr \<lparr>slope_price = Fin 100, daily_price_change = Fin 100,
          monthly_price_change_pct = Fin (3044 / 3000), slope_pricesf = Fin 100,
          market_trend = ''INCREASING'', r_squared = Fin 0.01\<rparr>"
  by (simp add: trend_analysis_def regressions_def trend_results_of_def classify_trend_def
      trend_df_of_def days_numeric_def demo_lib_def fgt_def Let_def)

lemma demo_config_fields:
  "SUBJECT_ADDRESS demo_config = ''1 Main St''"
  "SUBJECT_LIVING_AREA demo_config = 2000"
  "DATE_OF_VALUE demo_config = timedelta_days 19723"
  "TIME_ADJUSTMENT_THRESHOLD_DAYS demo_config = 30"
  "LIVING_AREA_ADJUSTMENT_THRESHOLD_PCT demo_config = Fin 5"
  by (simp_all add: demo_config_def)

lemma demo_analyse:
  "analyse demo_lib demo_config
     [\<lparr>Sale_Date = timedelta_days 19713, Sale_Price = Fin 310000, Living_Area = Fin 2200\<rparr>,
      \<lparr>Sale_Date = timedelta_days 19663, Sale_Price = Fin 300000, Living_Area = Fin 2000\<rparr>] =
     Inr demo_output"
  unfolding analyse_def Let_def demo_processed demo_validate prod.case demo_trend_two
    sum.case demo_coverage demo_config_fields
  by (simp add: earliest_sale_of_def latest_sale_of_def demo_sale_def demo_output_def
      timedelta_days_def day_ns_def)

lemma demo_run:
  "market_analysis demo_lib demo_config demo_form demo_columns demo_rows = Inr demo_output"
  by (simp add: market_analysis_def demo_missing_final demo_missing_fields demo_filtered
      demo_analyse Let_def)


lemma filter_dov_date:
  assumes "r \<in> set (filter_dov cfg df)"
  shows "Sale_Date r \<le> DATE_OF_VALUE cfg"
  using assms
  by (induction df)
     (auto simp: filter_dov_def List.map_filter_simps split: option.splits if_splits)



lemma set_process_sales: "set (process_sales cfg df) = derived_metrics cfg ` set df"
  by (simp add: process_sales_def)

lemma sorted_process_sales: "sorted (map Sale_Date (process_sales cfg df))"
  by (simp add: process_sales_def sorted_sort_key)

lemma mset_process_sales: "mset (process_sales cfg df) = mset (map (derived_metrics cfg) df)"
  by (simp add: process_sales_def)

lemma days_nonneg: "0 \<le> d \<Longrightarrow> 0 \<le> days d"
  by (simp add: days_def day_ns_def pos_imp_zdiv_nonneg_iff)

lemma analyse_Inr:
  assumes "analyse lib cfg filtered = Inr out"
  shows "sales_data_processed out = process_sales cfg filtered"
    and "printed_sales_count out = length filtered"
  using assms
  by (auto simp: analyse_def Let_def split: prod.splits sum.splits)

lemma analyse_Inl:
  assumes "analyse lib cfg filtered = Inl e"
  shows "e = ValueError"
  using assms
  by (auto simp: analyse_def trend_analysis_def regressions_def Let_def
      split: prod.splits sum.splits option.splits if_splits)

lemma market_analysis_Inr:
  assumes "market_analysis lib cfg form columns rows = Inr out"
  shows "missing_final columns = []" and "missing_fields form = []"
    and "sales_data_processed out = process_sales cfg (filter_dov cfg (parse_dates lib rows))"
    and "printed_sales_count out = length (filter_dov cfg (parse_dates lib rows))"
proof -
  let ?f = "filter_dov cfg (parse_dates lib rows)"
  from assms show a: "missing_final columns = []" and b: "missing_fields form = []"
    by (auto simp: market_analysis_def split: if_splits)
  show "sales_data_processed out = process_sales cfg ?f"
  proof (cases "?f = []")
    case True
    with assms a b show ?thesis
      by (auto simp: market_analysis_def no_sales_output_def process_sales_def)
  next
    case False
    with assms a b have "analyse lib cfg ?f = Inr out" by (simp add: market_analysis_def)
    then show ?thesis by (rule analyse_Inr)
  qed
  show "printed_sales_count out = length ?f"
  proof (cases "?f = []")
    case True
    with assms a b show ?thesis
      by (auto simp: market_analysis_def no_sales_output_def)
  next
    case False
    with assms a b have "analyse lib cfg ?f = Inr out" by (simp add: market_analysis_def)
    then show ?thesis by (rule analyse_Inr)
  qed
qed

lemma market_analysis_missing_columns:
  "(market_analysis lib cfg form columns rows = Inl (Missing_Final_Columns ms)) =
     (ms = missing_final columns \<and> ms \<noteq> [])"
proof (cases "missing_final columns = []")
  case False
  then show ?thesis by (auto simp: market_analysis_def)
next
  case True
  have "market_analysis lib cfg form columns rows \<noteq> Inl (Missing_Final_Columns ms)"
  proof
    assume h: "market_analysis lib cfg form columns rows = Inl (Missing_Final_Columns ms)"
    with True have "analyse lib cfg (filter_dov cfg (parse_dates lib rows)) =
        Inl (Missing_Final_Columns ms)"
      by (auto simp: market_analysis_def Let_def split: if_splits)
    then show False by (auto dest: analyse_Inl)
  qed
  with True show ?thesis by auto
qed

lemma demo_sale_fields:
  "Sale_Date (demo_sale d p a) = timedelta_days (19723 - d)"
  "Sale_Price (demo_sale d p a) = p"
  "Living_Area (demo_sale d p a) = a"
  "Price_Per_SF (demo_sale d p a) = fdiv p a"
  "Days_From_DOV (demo_sale d p a) = d"
  by (simp_all add: demo_sale_def)

text \<open>
  C5. For every run that ends with exit status 0, the processed table is sorted
  ascending by sale date; every row of it has a sale date on or before the date of
  value, a price per area that is the price divided by the living area, and a days
  from value that is the whole days from the sale date to the date of value, which is
  not negative; and its rows are the rows that the date filter kept, one row each, with
  the derived columns added after the filter.
\<close>

theorem processed_sales_filtered_sorted:
  assumes "market_analysis lib cfg form columns rows = Inr out"
  shows "sorted (map Sale_Date (sales_data_processed out)) \<and>
         (\<forall>r \<in> set (sales_data_processed out).
            Sale_Date r \<le> DATE_OF_VALUE cfg \<and>
            Price_Per_SF r = fdiv (Sale_Price r) (Living_Area r) \<and>
            Days_From_DOV r = days (DATE_OF_VALUE cfg - Sale_Date r) \<and>
            0 \<le> Days_From_DOV r) \<and>
         mset (sales_data_processed out) =
           mset (map (derived_metrics cfg) (filter_dov cfg (parse_dates lib rows)))"
proof -
  note p = market_analysis_Inr(3) [OF assms]
  have "sorted (map Sale_Date (sales_data_processed out))"
    unfolding p by (rule sorted_process_sales)
  moreover have "Sale_Date r \<le> DATE_OF_VALUE cfg \<and>
            Price_Per_SF r = fdiv (Sale_Price r) (Living_Area r) \<and>
            Days_From_DOV r = days (DATE_OF_VALUE cfg - Sale_Date r) \<and>
            0 \<le> Days_From_DOV r" if "r \<in> set (sales_data_processed out)" for r
  proof -
    from that obtain s where s: "s \<in> set (filter_dov cfg (parse_dates lib rows))"
      and r: "r = derived_metrics cfg s"
      unfolding p set_process_sales by auto
    from s have "Sale_Date s \<le> DATE_OF_VALUE cfg" by (rule filter_dov_date)
    then show ?thesis unfolding r by (simp add: derived_metrics_fields days_nonneg)
  qed
  moreover have "mset (sales_data_processed out) =
           mset (map (derived_metrics cfg) (filter_dov cfg (parse_dates lib rows)))"
    unfolding p by (rule mset_process_sales)
  ultimately show ?thesis by blast
qed

theorem processed_sales_filtered_sorted_witness:
  "market_analysis demo_lib demo_config demo_form demo_columns demo_rows = Inr demo_output \<and>
   length demo_rows = 4 \<and>
   map Sale_Date (sales_data_processed demo_output) =
     [timedelta_days 19663, timedelta_days 19713] \<and>
   DATE_OF_VALUE demo_config = timedelta_days 19723 \<and>
   map Days_From_DOV (sales_data_processed demo_output) = [60, 10] \<and>
   map Price_Per_SF (sales_data_processed demo_output) =
     [fdiv (Fin 300000) (Fin 2000), fdiv (Fin 310000) (Fin 2200)]"
  using processed_sales_filtered_sorted [OF demo_run] demo_run
  by (simp add: demo_output_def demo_sale_fields demo_config_fields demo_rows_def)

lemma trend_analysis_short:
  assumes "length (trend_df_of cfg valid df) < 2"
  shows "regressions lib (trend_df_of cfg valid df) =
           Inr ((Fin 0, Fin 0, Fin 0), (Fin 0, Fin 0, Fin 0))"
    and "trend_analysis lib cfg valid df =
           Inr \<lparr>slope_price = Fin 0, daily_price_change = Fin 0,
                monthly_price_change_pct = Fin 0, slope_pricesf = Fin 0,
                market_trend = ''INSUFFICIENT DATA'', r_squared = Fin 0\<rparr>"
  using assms
  by (simp_all add: trend_analysis_def regressions_def trend_results_of_def Let_def)

text \<open>
  C6. When the column and form checks pass and no sale is left after the date filter,
  the run ends normally: it prints a count of zero, writes an empty processed table and
  a validation record that holds the message \<open>No sales on or before date of value\<close>
  and no entry for the periods or the trend, so that it lists no valid period. When the
  trend window holds fewer than two rows, both regressions keep slope, intercept and
  r value at zero, and the trend results are zero for the slopes, the daily and monthly
  change and R squared, with the label \<open>INSUFFICIENT DATA\<close>.
\<close>

theorem degenerate_input_defaults:
  "(missing_final columns = [] \<and> missing_fields form = [] \<and>
    filter_dov cfg (parse_dates lib rows) = [] \<longrightarrow>
      (\<exists>out. market_analysis lib cfg form columns rows = Inr out \<and>
         message (validation out) = Some ''No sales on or before date of value'' \<and>
         valid_periods (validation out) = None \<and> omitted_periods (validation out) = None \<and>
         trend (validation out) = None \<and>
         sales_data_processed out = [] \<and> printed_sales_count out = 0)) \<and>
   (length (trend_df_of cfg valid df) < 2 \<longrightarrow>
      regressions lib (trend_df_of cfg valid df) =
        Inr ((Fin 0, Fin 0, Fin 0), (Fin 0, Fin 0, Fin 0)) \<and>
      trend_analysis lib cfg valid df =
        Inr \<lparr>slope_price = Fin 0, daily_price_change = Fin 0,
             monthly_price_change_pct = Fin 0, slope_pricesf = Fin 0,
             market_trend = ''INSUFFICIENT DATA'', r_squared = Fin 0\<rparr>)"
  by (simp add: market_analysis_def no_sales_output_def trend_analysis_short)

theorem degenerate_input_defaults_witness:
  "missing_final demo_columns = [] \<and> missing_fields demo_form = [] \<and>
   filter_dov demo_config (parse_dates demo_lib future_rows) = [] \<and>
   market_analysis demo_lib demo_config demo_form demo_columns future_rows =
     Inr (no_sales_output demo_config) \<and>
   length (trend_df_of demo_config [] [demo_sale 10 (Fin 310000) (Fin 2200)]) < 2 \<and>
   trend_analysis demo_lib demo_config [] [demo_sale 10 (Fin 310000) (Fin 2200)] =
     Inr \<lparr>slope_price = Fin 0, daily_price_change = Fin 0,
          monthly_price_change_pct = Fin 0, slope_pricesf = Fin 0,
          market_trend = ''INSUFFICIENT DATA'', r_squared = Fin 0\<rparr>"
proof -
  have r: "market_analysis demo_lib demo_config demo_form demo_columns future_rows =
     Inr (no_sales_output demo_config)"
    by (simp add: market_analysis_def demo_missing_final demo_missing_fields
        future_filtered)
  have l: "length (trend_df_of demo_config [] [demo_sale 10 (Fin 310000) (Fin 2200)]) < 2"
    by (simp add: trend_df_of_def)
  note w = degenerate_input_defaults
      [of demo_columns demo_form demo_config demo_lib future_rows "[]"
        "[demo_sale 10 (Fin 310000) (Fin 2200)]"]
  from w l
  have "trend_analysis demo_lib demo_config [] [demo_sale 10 (Fin 310000) (Fin 2200)] =
     Inr \<lparr>slope_price = Fin 0, daily_price_change = Fin 0,
          monthly_price_change_pct = Fin 0, slope_pricesf = Fin 0,
          market_trend = ''INSUFFICIENT DATA'', r_squared = Fin 0\<rparr>"
    by blast
  with r l demo_missing_final demo_missing_fields future_filtered show ?thesis
    by simp
qed

text \<open>
  C8, as the claim states it, fails: headers that resolve the price, the date and the
  living area and nothing else stop the run with the error that lists the seven other
  final columns.
\<close>

theorem three_columns_counterexample:
  "map rename_map three_columns =
     [Some ''Sale_Price'', Some ''Sale_Date'', Some ''Living_Area''] \<and>
   market_analysis demo_lib demo_config demo_form three_columns demo_rows =
     Inl (Missing_Final_Columns
       [''Bedrooms'', ''Bathrooms'', ''Street_Number'', ''Street_Name'', ''DOM'', ''CDOM'',
        ''Garage''])"
  by (simp add: three_rename_map market_analysis_def three_missing_final)

text \<open>
  C8, amended. All ten final columns are required: the price, the date and the living
  area, and also the bedrooms, the bathrooms, the street number, the street name, DOM,
  CDOM and the garage. The run stops with the missing-columns error exactly when one of
  the ten is not among the column names after stripping and renaming, and the error
  lists the required names that are absent, in the order of the list. A column that no
  rule matches keeps its stripped name.
\<close>

theorem all_final_columns_required:
  "((market_analysis lib cfg form columns rows = Inl (Missing_Final_Columns ms)) =
      (ms = filter (\<lambda>c. c \<notin> set (renamed_columns columns)) required_final \<and> ms \<noteq> [])) \<and>
   ((\<exists>ms. market_analysis lib cfg form columns rows = Inl (Missing_Final_Columns ms)) =
      (\<not> set required_final \<subseteq> set (renamed_columns columns))) \<and>
   required_final =
     [''Sale_Price'', ''Sale_Date'', ''Living_Area'', ''Bedrooms'', ''Bathrooms'',
      ''Street_Number'', ''Street_Name'', ''DOM'', ''CDOM'', ''Garage''] \<and>
   (rename_map (strip col) = None \<longrightarrow> renamed_columns [col] = [strip col])"
proof -
  have a: "(market_analysis lib cfg form columns rows = Inl (Missing_Final_Columns ms)) =
      (ms = filter (\<lambda>c. c \<notin> set (renamed_columns columns)) required_final \<and> ms \<noteq> [])"
    by (simp add: market_analysis_missing_columns missing_final_def)
  have "(\<exists>ms. market_analysis lib cfg form columns rows = Inl (Missing_Final_Columns ms)) =
      (missing_final columns \<noteq> [])"
    by (auto simp: market_analysis_missing_columns)
  also have "\<dots> = (\<not> set required_final \<subseteq> set (renamed_columns columns))"
    by (auto simp: missing_final_def filter_empty_conv)
  finally have b: "(\<exists>ms. market_analysis lib cfg form columns rows =
      Inl (Missing_Final_Columns ms)) = (\<not> set required_final \<subseteq> set (renamed_columns columns))" .
  have c: "rename_map (strip col) = None \<longrightarrow> renamed_columns [col] = [strip col]"
    by (simp add: renamed_columns_def)
  from a b c show ?thesis by (simp add: required_final_def)
qed

theorem all_final_columns_required_witness:
  "rename_map (strip ''Pool'') = None \<and> renamed_columns [''Pool''] = [''Pool''] \<and>
   market_analysis demo_lib demo_config demo_form three_columns demo_rows =
     Inl (Missing_Final_Columns
       [''Bedrooms'', ''Bathrooms'', ''Street_Number'', ''Street_Name'', ''DOM'', ''CDOM'',
        ''Garage'']) \<and>
   \<not> set required_final \<subseteq> set (renamed_columns three_columns) \<and>
   market_analysis demo_lib demo_config demo_form demo_columns demo_rows = Inr demo_output \<and>
   set required_final \<subseteq> set (renamed_columns demo_columns)"
proof -
  have p: "rename_map (strip ''Pool'') = None" by code_simp
  have s: "strip ''Pool'' = ''Pool''" by code_simp
  have t: "market_analysis demo_lib demo_config demo_form three_columns demo_rows =
     Inl (Missing_Final_Columns
       [''Bedrooms'', ''Bathrooms'', ''Street_Number'', ''Street_Name'', ''DOM'', ''CDOM'',
        ''Garage''])"
    by (simp add: market_analysis_def three_missing_final)
  note w3 = all_final_columns_required
      [of demo_lib demo_config demo_form three_columns demo_rows
        "[''Bedrooms'', ''Bathrooms'', ''Street_Number'', ''Street_Name'', ''DOM'', ''CDOM'',
          ''Garage'']" "''Pool''"]
  note w10 = all_final_columns_required
      [of demo_lib demo_config demo_form demo_columns demo_rows "[]" "''Pool''"]
  from w3 t have a: "\<not> set required_final \<subseteq> set (renamed_columns three_columns)"
    by blast
  from w3 p s have b: "renamed_columns [''Pool''] = [''Pool'']" by simp
  from w10 demo_run have c: "set required_final \<subseteq> set (renamed_columns demo_columns)"
    by auto
  from p a b c t demo_run show ?thesis by simp
qed




section \<open>Properties of the period validator\<close>

lemma validate_period_cases:
  "validate_period lib cfg df (valid, omitted) (nm, m) =
     (if of_int m > actual_coverage_months cfg df + buffer_months
      then (valid, omitted @
              [\<lparr>name = nm, months = m, sales_count = sales_count_of cfg df m,
                reason = ''extends beyond data coverage (''
                  @ format_1f lib (actual_coverage_months cfg df) @ '' months)''\<rparr>])
      else if valid \<noteq> [] \<and> sales_count_of cfg df m = sales_count (last valid)
      then (valid, omitted @
              [\<lparr>name = nm, months = m, sales_count = sales_count_of cfg df m,
                reason = ''identical sales count to '' @ name (last valid)
                  @ '' (n='' @ format_d lib (sales_count_of cfg df m) @ '')''\<rparr>])
      else (valid @
              [\<lparr>name = nm, months = m, sales_count = sales_count_of cfg df m,
                cutoff_date = cutoff_date_of cfg m, status = ''valid''\<rparr>],
            omitted))"
  by (simp add: validate_period_def Let_def)

lemma ladder_inv_step:
  assumes "ladder_inv cfg df ps st" and "fst p \<notin> set (map fst ps)"
  shows "ladder_inv cfg df (ps @ [p]) (validate_period lib cfg df st p)"
proof -
  obtain valid omitted where st: "st = (valid, omitted)" by (cases st)
  obtain nm m where p: "p = (nm, m)" by (cases p)
  from assms(2) have fresh: "nm \<notin> fst ` set ps" by (simp add: p)
  from assms(1) have sub: "name ` set valid \<subseteq> fst ` set ps"
    by (simp add: ladder_inv_def st)
  with fresh have nv: "nm \<notin> name ` set valid" by blast
  have f1: "filter (\<lambda>q. fst q = nm \<or> P q) ps = filter P ps" for P
    using fresh by (intro filter_cong) auto
  have f2: "filter (\<lambda>q. fst q \<noteq> nm \<and> P q) ps = filter P ps" for P
    using fresh by (intro filter_cong) auto
  from assms(1) show ?thesis
    unfolding st p validate_period_cases
    using nv fresh sub
    by (auto simp: ladder_inv_def f1 f2 empty_filter_conv filter_empty_conv)
qed

lemma ladder_inv_foldl:
  assumes "distinct (map fst ps)"
  shows "ladder_inv cfg df ps (foldl (validate_period lib cfg df) ([], []) ps)"
  using assms
proof (induction ps rule: rev_induct)
  case Nil
  show ?case by (simp add: ladder_inv_def)
next
  case (snoc p ps)
  then show ?case by (simp add: ladder_inv_step)
qed

lemma distinct_time_periods: "distinct (map fst time_periods)"
  by (simp add: time_periods_def)

lemma length_time_periods: "length time_periods = 9"
  by (simp add: time_periods_def)

lemma length_filter_partition:
  "length (filter P xs) + length (filter (\<lambda>x. \<not> P x) xs) = length xs"
  by (induction xs) auto

lemma py_int_floor: "0 \<le> x \<Longrightarrow> py_int x = \<lfloor>x\<rfloor>"
  by (simp add: py_int_def)

lemma tie_coverage: "actual_coverage_months demo_config tie_df = 340 / 30.44"
  by (simp add: actual_coverage_months_def actual_coverage_days_def earliest_sale_of_def
      tie_df_def demo_sale_def demo_config_def timedelta_days_def day_ns_def days_def)

lemma tie_counts:
  "sales_count_of demo_config tie_df 3 = 2" "sales_count_of demo_config tie_df 6 = 2"
  "sales_count_of demo_config tie_df 9 = 3" "sales_count_of demo_config tie_df 12 = 4"
  "sales_count_of demo_config tie_df 18 = 4" "sales_count_of demo_config tie_df 24 = 4"
  "sales_count_of demo_config tie_df 36 = 4"
  by (simp_all add: sales_count_of_def demo_cutoffs tie_df_def demo_sale_def
      timedelta_days_def day_ns_def)

lemma tie_prefix:
  "foldl (validate_period demo_lib demo_config tie_df) ([], []) (take 4 time_periods) =
     ([\<lparr>name = ''0-3 months'', months = 3, sales_count = 2,
        cutoff_date = timedelta_days 19632, status = ''valid''\<rparr>,
       \<lparr>name = ''7-9 months'', months = 9, sales_count = 3,
        cutoff_date = timedelta_days 19450, status = ''valid''\<rparr>,
       \<lparr>name = ''9-12 months'', months = 12, sales_count = 4,
        cutoff_date = timedelta_days 19358, status = ''valid''\<rparr>],
      [\<lparr>name = ''4-6 months'', months = 6, sales_count = 2,
        reason = ''identical sales count to 0-3 months (n=?)''\<rparr>])"
  by (simp add: time_periods_def validate_period_cases tie_coverage tie_counts
      demo_cutoffs buffer_months_def demo_lib_def)

lemma tie_validate:
  "validate_periods demo_lib demo_config tie_df =
     ([\<lparr>name = ''0-3 months'', months = 3, sales_count = 2,
        cutoff_date = timedelta_days 19632, status = ''valid''\<rparr>,
       \<lparr>name = ''7-9 months'', months = 9, sales_count = 3,
        cutoff_date = timedelta_days 19450, status = ''valid''\<rparr>,
       \<lparr>name = ''9-12 months'', months = 12, sales_count = 4,
        cutoff_date = timedelta_days 19358, status = ''valid''\<rparr>,
       \<lparr>name = ''0-6 months'', months = 6, sales_count = 2,
        cutoff_date = timedelta_days 19541, status = ''valid''\<rparr>,
       \<lparr>name = ''0-12 months'', months = 12, sales_count = 4,
        cutoff_date = timedelta_days 19358, status = ''valid''\<rparr>],
      [\<lparr>name = ''4-6 months'', months = 6, sales_count = 2,
        reason = ''identical sales count to 0-3 months (n=?)''\<rparr>,
       \<lparr>name = ''0-18 months'', months = 18, sales_count = 4,
        reason = ''extends beyond data coverage (? months)''\<rparr>,
       \<lparr>name = ''0-24 months'', months = 24, sales_count = 4,
        reason = ''extends beyond data coverage (? months)''\<rparr>,
       \<lparr>name = ''0-36 months'', months = 36, sales_count = 4,
        reason = ''extends beyond data coverage (? months)''\<rparr>])"
  by (simp add: validate_periods_def time_periods_def validate_period_cases tie_coverage
      tie_counts demo_cutoffs buffer_months_def demo_lib_def)

text \<open>
  C10. For every run of the validator, the valid periods are the candidates of the
  ladder whose name is among the accepted names and the omitted periods are the other
  candidates, each list in the order of the ladder and with the name and month count
  of its candidate; the two lists have nine entries together; and every omitted period
  has a reason that is not empty and the sale count of its window.
\<close>

theorem periods_partition_ladder:
  assumes "validate_periods lib cfg df = (valid, omitted)"
  shows "map (\<lambda>p. (name p, months p)) valid =
           filter (\<lambda>q. fst q \<in> set (map name valid)) time_periods \<and>
         map (\<lambda>p. (name p, months p)) omitted =
           filter (\<lambda>q. fst q \<notin> set (map name valid)) time_periods \<and>
         length valid + length omitted = 9 \<and>
         (\<forall>p \<in> set omitted.
            reason p \<noteq> [] \<and> sales_count p = sales_count_of cfg df (months p))"
proof -
  have inv: "ladder_inv cfg df time_periods (valid, omitted)"
    using ladder_inv_foldl [OF distinct_time_periods, of cfg df lib] assms
    by (simp add: validate_periods_def)
  then have v: "map (\<lambda>p. (name p, months p)) valid =
           filter (\<lambda>q. fst q \<in> set (map name valid)) time_periods"
    and o: "map (\<lambda>p. (name p, months p)) omitted =
           filter (\<lambda>q. fst q \<notin> set (map name valid)) time_periods"
    and r: "\<forall>p \<in> set omitted.
              reason p \<noteq> [] \<and> sales_count p = sales_count_of cfg df (months p)"
    by (simp_all add: ladder_inv_def)
  have "length valid + length omitted =
          length (map (\<lambda>p. (name p, months p)) valid) +
          length (map (\<lambda>p. (name p, months p)) omitted)"
    by simp
  also have "\<dots> = length time_periods"
    unfolding v o by (rule length_filter_partition)
  finally have "length valid + length omitted = 9" by (simp add: length_time_periods)
  with v o r show ?thesis by blast
qed

theorem periods_partition_ladder_witness:
  "map name (fst (validate_periods demo_lib demo_config tie_df)) =
     [''0-3 months'', ''7-9 months'', ''9-12 months'', ''0-6 months'', ''0-12 months''] \<and>
   map name (snd (validate_periods demo_lib demo_config tie_df)) =
     [''4-6 months'', ''0-18 months'', ''0-24 months'', ''0-36 months''] \<and>
   map reason (snd (validate_periods demo_lib demo_config tie_df)) =
     [''identical sales count to 0-3 months (n=?)'',
      ''extends beyond data coverage (? months)'',
      ''extends beyond data coverage (? months)'',
      ''extends beyond data coverage (? months)''] \<and>
   length (fst (validate_periods demo_lib demo_config tie_df)) +
     length (snd (validate_periods demo_lib demo_config tie_df)) = 9"
  using periods_partition_ladder [OF tie_validate]
  by (simp add: tie_validate)

text \<open>
  When the date of value and every sale date are whole days, the truncated cutoff of
  the code and the cutoff without truncation select the same sales.
\<close>

lemma whole_day_cutoff:
  assumes "0 \<le> m" and dov: "DATE_OF_VALUE cfg = timedelta_days d"
  shows "(cutoff_date_as_specified cfg m \<le> of_int (timedelta_days s)) =
         (cutoff_date_of cfg m \<le> timedelta_days s)"
proof -
  let ?x = "of_int m * (30.44::real)"
  have x: "0 \<le> ?x" using assms by simp
  have D: "(0::real) < of_int day_ns" by (simp add: day_ns_def)
  have Di: "0 < day_ns" by (simp add: day_ns_def)
  have "(cutoff_date_as_specified cfg m \<le> of_int (timedelta_days s)) =
        ((of_int d - ?x) * of_int day_ns \<le> of_int s * (of_int day_ns :: real))"
    by (simp add: cutoff_date_as_specified_def dov timedelta_days_def algebra_simps)
  also have "\<dots> = (of_int d - ?x \<le> of_int s)"
    using D by (simp only: mult_le_cancel_right_pos)
  also have "\<dots> = (of_int (d - s) \<le> ?x)" by auto
  also have "\<dots> = (d - s \<le> \<lfloor>?x\<rfloor>)" by (simp only: le_floor_iff)
  also have "\<dots> = (d - \<lfloor>?x\<rfloor> \<le> s)" by linarith
  also have "\<dots> = ((d - \<lfloor>?x\<rfloor>) * day_ns \<le> s * day_ns)"
    using Di by (simp add: mult_le_cancel_right)
  also have "\<dots> = (cutoff_date_of cfg m \<le> timedelta_days s)"
    using x by (simp add: cutoff_date_of_def dov timedelta_days_def py_int_floor algebra_simps)
  finally show ?thesis .
qed

lemma sales_count_whole_days:
  assumes "0 \<le> m" and "DATE_OF_VALUE cfg = timedelta_days d"
      and "\<forall>r \<in> set df. \<exists>s. Sale_Date r = timedelta_days s"
  shows "sales_count_as_specified cfg df m = sales_count_of cfg df m"
proof -
  have "filter (\<lambda>r. of_int (Sale_Date r) \<ge> cutoff_date_as_specified cfg m) df =
        filter (\<lambda>r. Sale_Date r \<ge> cutoff_date_of cfg m) df"
  proof (rule filter_cong [OF refl])
    fix r assume "r \<in> set df"
    with assms(3) obtain s where s: "Sale_Date r = timedelta_days s" by blast
    show "(cutoff_date_as_specified cfg m \<le> of_int (Sale_Date r)) =
          (cutoff_date_of cfg m \<le> Sale_Date r)"
      unfolding s by (rule whole_day_cutoff [OF assms(1,2)])
  qed
  then show ?thesis by (simp add: sales_count_as_specified_def sales_count_of_def)
qed

lemma late_coverage: "actual_coverage_months demo_config late_df = 91 / 30.44"
  by (simp add: actual_coverage_months_def actual_coverage_days_def earliest_sale_of_def
      late_df_def demo_config_def timedelta_days_def day_ns_def days_def)

lemma late_counts:
  "sales_count_of demo_config late_df 3 = 0" "sales_count_of demo_config late_df 6 = 1"
  "sales_count_of demo_config late_df 9 = 1" "sales_count_of demo_config late_df 12 = 1"
  "sales_count_of demo_config late_df 18 = 1" "sales_count_of demo_config late_df 24 = 1"
  "sales_count_of demo_config late_df 36 = 1"
  by (simp_all add: sales_count_of_def demo_cutoffs late_df_def timedelta_days_def
      day_ns_def)

lemma late_valid:
  "fst (validate_periods demo_lib demo_config late_df) =
     [\<lparr>name = ''0-3 months'', months = 3, sales_count = 0,
       cutoff_date = timedelta_days 19632, status = ''valid''\<rparr>]"
  by (simp add: validate_periods_def time_periods_def validate_period_cases late_coverage
      late_counts demo_cutoffs buffer_months_def demo_lib_def)

text \<open>
  C3, as the claim states it, fails on the cutoff: the code truncates the product of the
  months and 30.44 to whole days before it subtracts. For three months the cutoff is 91
  days before the date of value, not 91.32. A sale 91 days and 6 hours before the date
  of value is after the cutoff as the claim computes it and before the cutoff of the
  code, so the first period of the ladder is accepted with a count of zero, not one.
\<close>

theorem cutoff_truncated_counterexample:
  "Sale_Date (late_df ! 0) = timedelta_days 19632 - 21600000000000 \<and>
   cutoff_date_of demo_config 3 = timedelta_days 19632 \<and>
   cutoff_date_as_specified demo_config 3 < of_int (Sale_Date (late_df ! 0)) \<and>
   Sale_Date (late_df ! 0) < cutoff_date_of demo_config 3 \<and>
   sales_count_as_specified demo_config late_df 3 = 1 \<and>
   fst (validate_periods demo_lib demo_config late_df) =
     [\<lparr>name = ''0-3 months'', months = 3, sales_count = 0,
       cutoff_date = timedelta_days 19632, status = ''valid''\<rparr>]"
proof -
  have a: "Sale_Date (late_df ! 0) = timedelta_days 19632 - 21600000000000"
    by (simp add: late_df_def)
  have b: "cutoff_date_as_specified demo_config 3 < of_int (Sale_Date (late_df ! 0))"
    by (simp add: a cutoff_date_as_specified_def demo_config_def timedelta_days_def
        day_ns_def)
  have c: "Sale_Date (late_df ! 0) < cutoff_date_of demo_config 3"
    by (simp add: a demo_cutoffs)
  have d: "sales_count_as_specified demo_config late_df 3 = 1"
    by (simp add: sales_count_as_specified_def cutoff_date_as_specified_def late_df_def
        demo_config_def timedelta_days_def day_ns_def)
  from a b c d late_valid demo_cutoffs(1) show ?thesis by simp
qed

text \<open>
  C3, amended. For every candidate of the ladder, in ladder order, with the two lists
  as the earlier candidates left them: the cutoff is the date of value minus the whole
  days of the months times 30.44, truncated; the sale count is the number of sales on
  or after the cutoff; the candidate is omitted when its months exceed the coverage in
  months plus one; otherwise it is omitted when a period was accepted before and its
  count equals the count of the last accepted one; otherwise it is accepted. The
  omitted list plays no part in the decision, so a candidate is accepted when its
  count differs from the last accepted one, whatever the counts of the omitted periods.
\<close>

theorem period_validation_order:
  assumes "k < length time_periods"
      and "time_periods ! k = (period_name, period_months)"
      and "foldl (validate_period lib cfg df) ([], []) (take k time_periods) =
             (valid, omitted)"
  shows "cutoff_date_of cfg period_months =
           DATE_OF_VALUE cfg - \<lfloor>of_int period_months * (30.44::real)\<rfloor> * day_ns \<and>
         sales_count_of cfg df period_months =
           length (filter (\<lambda>r. cutoff_date_of cfg period_months \<le> Sale_Date r) df) \<and>
         foldl (validate_period lib cfg df) ([], []) (take (Suc k) time_periods) =
           (if of_int period_months > actual_coverage_months cfg df + 1
            then (valid, omitted @
                    [\<lparr>name = period_name, months = period_months,
                      sales_count = sales_count_of cfg df period_months,
                      reason = ''extends beyond data coverage (''
                        @ format_1f lib (actual_coverage_months cfg df) @ '' months)''\<rparr>])
            else if valid \<noteq> [] \<and>
                    sales_count_of cfg df period_months = sales_count (last valid)
            then (valid, omitted @
                    [\<lparr>name = period_name, months = period_months,
                      sales_count = sales_count_of cfg df period_months,
                      reason = ''identical sales count to '' @ name (last valid)
                        @ '' (n='' @ format_d lib (sales_count_of cfg df period_months)
                        @ '')''\<rparr>])
            else (valid @
                    [\<lparr>name = period_name, months = period_months,
                      sales_count = sales_count_of cfg df period_months,
                      cutoff_date = cutoff_date_of cfg period_months,
                      status = ''valid''\<rparr>],
                  omitted)) \<and>
         (\<not> of_int period_months > actual_coverage_months cfg df + 1 \<and>
          (valid = [] \<or> sales_count_of cfg df period_months \<noteq> sales_count (last valid)) \<longrightarrow>
            map name (fst (foldl (validate_period lib cfg df) ([], [])
              (take (Suc k) time_periods))) = map name valid @ [period_name])"
proof -
  from assms(1,2) have "(period_name, period_months) \<in> set time_periods"
    by (metis nth_mem)
  then have "0 \<le> period_months" by (auto simp: time_periods_def)
  then have "0 \<le> of_int period_months * (30.44::real)" by simp
  then have c: "cutoff_date_of cfg period_months =
           DATE_OF_VALUE cfg - \<lfloor>of_int period_months * (30.44::real)\<rfloor> * day_ns"
    by (simp only: cutoff_date_of_def py_int_floor timedelta_days_def)
  have s: "foldl (validate_period lib cfg df) ([], []) (take (Suc k) time_periods) =
     validate_period lib cfg df (valid, omitted) (period_name, period_months)"
    using assms by (simp add: take_Suc_conv_app_nth)
  show ?thesis
    unfolding s validate_period_cases using c
    by (auto simp: sales_count_of_def buffer_months_def)
qed

theorem period_validation_order_witness:
  "(4::nat) < length time_periods \<and> time_periods ! 4 = (''0-6 months'', 6) \<and>
   map sales_count (snd (foldl (validate_period demo_lib demo_config tie_df) ([], [])
     (take 4 time_periods))) = [2] \<and>
   map sales_count (fst (foldl (validate_period demo_lib demo_config tie_df) ([], [])
     (take 4 time_periods))) = [2, 3, 4] \<and>
   sales_count_of demo_config tie_df 6 = 2 \<and>
   \<not> 6 > actual_coverage_months demo_config tie_df + 1 \<and>
   map name (fst (foldl (validate_period demo_lib demo_config tie_df) ([], [])
     (take (Suc 4) time_periods))) =
     [''0-3 months'', ''7-9 months'', ''9-12 months'', ''0-6 months'']"
proof -
  have k: "(4::nat) < length time_periods" by (simp add: time_periods_def)
  have n: "time_periods ! 4 = (''0-6 months'', 6)" by (simp add: time_periods_def)
  have cv: "\<not> 6 > actual_coverage_months demo_config tie_df + 1"
    by (simp add: tie_coverage)
  note w = period_validation_order [OF k n tie_prefix]
  from w cv
  have "map name (fst (foldl (validate_period demo_lib demo_config tie_df) ([], [])
     (take (Suc 4) time_periods))) =
     [''0-3 months'', ''7-9 months'', ''9-12 months'', ''0-6 months'']"
    by (simp add: tie_counts)
  with k n cv show ?thesis by (simp add: tie_prefix tie_counts)
qed

end
